theory Spec2Isabelle
  imports Complex_Main
begin

section \<open>Data model of \<open>server.js\<close> (last revision, lines 421--627)\<close>

text \<open>
  The server is a set of Express route handlers over two MongoDB collections, Orders and
  Carts. A collection is modelled as the list of its documents in insertion order; a query
  by key returns the first matching document. JavaScript numbers that the handlers only
  store and return (\<open>subtotal\<close>, \<open>shippingFee\<close>, \<open>total\<close>) are rationals, dates are
  milliseconds as integers, and cart lines are of an arbitrary type \<open>'i\<close> (schema type
  \<open>Array\<close>). A schema path without a default that the client leaves out is \<open>None\<close>.
\<close>

type_synonym number = rat
type_synonym timestamp = int

text \<open>Nested path \<open>customer\<close> of \<open>orderSchema\<close> (lines 463--467).\<close>

record customer =
  name :: string
  email :: "string option"
  address :: "string option"

text \<open>\<open>orderSchema\<close> (lines 461--477). Field \<open>total\<close> is called \<open>order_total\<close> here.\<close>

record 'i order =
  orderId :: string
  customer :: customer
  items :: "'i list"
  paymentMethod :: "string option"
  deliveryMethod :: "string option"
  subtotal :: "number option"
  shippingFee :: "number option"
  order_total :: "number option"
  status :: string
  receiptImg :: "string option"
  createdAt :: timestamp

text \<open>\<open>cartSchema\<close> (lines 481--485). Field \<open>items\<close> is called \<open>cart_items\<close> here.\<close>

record 'i cart =
  sessionId :: string
  cart_items :: "'i list"
  updatedAt :: timestamp

text \<open>The two collections.\<close>

record 'i db =
  orders :: "'i order list"
  carts :: "'i cart list"

text \<open>
  The body of \<open>POST /api/orders\<close>: any schema path may be present or absent in the JSON
  the client sends, \<open>orderId\<close>, \<open>status\<close>, \<open>receiptImg\<close> and \<open>createdAt\<close> included.
\<close>

record customer_body =
  b_name :: "string option"
  b_email :: "string option"
  b_address :: "string option"

record 'i order_body =
  b_orderId :: "string option"
  b_customer :: "customer_body option"
  b_items :: "'i list option"
  b_paymentMethod :: "string option"
  b_deliveryMethod :: "string option"
  b_subtotal :: "number option"
  b_shippingFee :: "number option"
  b_total :: "number option"
  b_status :: "string option"
  b_receiptImg :: "string option"
  b_createdAt :: "timestamp option"

text \<open>
  What a handler reads from outside the request: the clock (\<open>Date.now()\<close>), the two draws of
  \<open>Math.random()\<close>, and whether the store call of this request throws for a reason of its
  own (\<open>Some message\<close>), which the handler's \<open>catch\<close> turns into a 500 response.
\<close>

record env =
  now :: timestamp
  random1 :: rat
  random2 :: rat
  fault :: "string option"

text \<open>The JSON bodies the handlers send, one constructor per shape.\<close>

datatype 'i body =
    Failure string
  | Success
  | CartDoc string "'i list" "timestamp option"
  | Token string
  | Created string "'i order"
  | Uploaded string "'i order option"
  | OrderList "'i order list"
  | Updated "'i order option"
  | Tracked string string "number option" string timestamp

type_synonym 'i response = "nat \<times> 'i body"

datatype 'i request =
    GetCart string
  | PostCart string "'i list"
  | DeleteCart string
  | PostAdminLogin string
  | PostOrders "'i order_body"
  | PostUploadReceipt string string string "string option"
  | GetAdminOrders
  | PutOrderStatus string string
  | GetTrack string


section \<open>The persistence gateway\<close>

text \<open>\<open>Model.findOne(filter)\<close>: the first document that matches, or null.\<close>

fun findOne :: "('a \<Rightarrow> bool) \<Rightarrow> 'a list \<Rightarrow> 'a option" where
  "findOne p [] = None"
| "findOne p (x # xs) = (if p x then Some x else findOne p xs)"

text \<open>
  \<open>Model.findOneAndUpdate(filter, update, {new: true})\<close>: the first document that matches
  is updated in place and returned as updated; with no match nothing changes and the
  result is null.
\<close>

fun findOneAndUpdate :: "('a \<Rightarrow> bool) \<Rightarrow> ('a \<Rightarrow> 'a) \<Rightarrow> 'a list \<Rightarrow> 'a list \<times> 'a option" where
  "findOneAndUpdate p u [] = ([], None)"
| "findOneAndUpdate p u (x # xs) =
     (if p x then (u x # xs, Some (u x))
      else (x # fst (findOneAndUpdate p u xs), snd (findOneAndUpdate p u xs)))"

text \<open>The same with \<open>upsert: true\<close>: with no match the document \<open>d\<close> is inserted.\<close>

definition findOneAndUpsert :: "('a \<Rightarrow> bool) \<Rightarrow> ('a \<Rightarrow> 'a) \<Rightarrow> 'a \<Rightarrow> 'a list \<Rightarrow> 'a list \<times> 'a option" where
  "findOneAndUpsert p u d xs =
     (case snd (findOneAndUpdate p u xs) of
        Some x \<Rightarrow> findOneAndUpdate p u xs
      | None \<Rightarrow> (xs @ [d], Some d))"

text \<open>\<open>Model.deleteOne(filter)\<close>: the first document that matches is removed.\<close>

fun deleteOne :: "('a \<Rightarrow> bool) \<Rightarrow> 'a list \<Rightarrow> 'a list" where
  "deleteOne p [] = []"
| "deleteOne p (x # xs) = (if p x then xs else x # deleteOne p xs)"

definition duplicate_key_msg :: string where
  "duplicate_key_msg = ''E11000 duplicate key error''"

text \<open>
  A JavaScript \<open>Date\<close> holds a time value of at most 8.64e15 milliseconds either side of
  the epoch; beyond that it is an invalid date, which the schema type \<open>Date\<close> does not
  accept.
\<close>

definition valid_date :: "timestamp \<Rightarrow> bool" where
  "valid_date t = (- 8640000000000000 \<le> t \<and> t \<le> 8640000000000000)"

definition validation_msg :: string where
  "validation_msg = ''Order validation failed''"

text \<open>
  \<open>newOrder.save()\<close>: the document is validated against the schema first, and a
  \<open>createdAt\<close> that is not a valid date fails the validation (the other paths take any
  value of their type). Then \<open>orderId\<close> is declared \<open>unique: true\<close> (line 462), so the
  store rejects a document whose \<open>orderId\<close> another document has; otherwise the document
  is appended.
\<close>

definition save :: "'i order \<Rightarrow> 'i order list \<Rightarrow> string + 'i order list" where
  "save d ds =
     (if \<not> valid_date (createdAt d) then Inl validation_msg
      else if findOne (\<lambda>x. orderId x = orderId d) ds \<noteq> None then Inl duplicate_key_msg
      else Inr (ds @ [d]))"


section \<open>Order reference generation\<close>

text \<open>Number to string conversion of JavaScript, for integers: decimal digits.\<close>

definition digit_char :: "nat \<Rightarrow> char" where
  "digit_char d = ''0123456789'' ! d"

fun show_nat :: "nat \<Rightarrow> string" where
  "show_nat n = (if n < 10 then [digit_char n] else show_nat (n div 10) @ [digit_char (n mod 10)])"

declare show_nat.simps [simp del]

definition show_int :: "int \<Rightarrow> string" where
  "show_int i = (if i < 0 then CHR ''-'' # show_nat (nat (- i)) else show_nat (nat i))"


text \<open>
  JavaScript numbers are IEEE 754 doubles, and every arithmetic operation rounds its exact
  result to the nearest double, ties to the even significand. A double is modelled by the
  rational number it denotes. \<open>expo x\<close> is the binary exponent of a positive \<open>x\<close>, the
  \<open>e\<close> with \<open>2 ^ e \<le> x < 2 ^ (e + 1)\<close>; \<open>ulp x\<close> is the distance between the doubles
  around \<open>x\<close>, with 52 fraction bits and the smallest exponent \<open>- 1022\<close> of the
  subnormal range. Results of \<open>2 ^ 1024\<close> and more, which a double cannot hold, do not
  arise below: all operands stay under \<open>2 ^ 14\<close>.
\<close>

function expo_up :: "rat \<Rightarrow> int" where
  "expo_up x = (if 2 \<le> x then expo_up (x / 2) + 1 else 0)"
  by pat_completeness auto
termination
proof (relation "measure (\<lambda>x. nat \<lfloor>x\<rfloor>)")
  show "wf (measure (\<lambda>x::rat. nat \<lfloor>x\<rfloor>))" by (rule wf_measure)
next
  fix x :: rat
  assume "2 \<le> x"
  then have a: "2 \<le> \<lfloor>x\<rfloor>" by (simp add: le_floor_iff)
  then have "(2::rat) \<le> of_int \<lfloor>x\<rfloor>" by simp
  moreover have "x < of_int \<lfloor>x\<rfloor> + 1" by linarith
  ultimately have "x / 2 < of_int \<lfloor>x\<rfloor>" by linarith
  then have "\<lfloor>x / 2\<rfloor> < \<lfloor>x\<rfloor>" by (simp add: floor_less_iff)
  then have "nat \<lfloor>x / 2\<rfloor> < nat \<lfloor>x\<rfloor>" using a by linarith
  then show "(x / 2, x) \<in> measure (\<lambda>x. nat \<lfloor>x\<rfloor>)" by (simp only: in_measure)
qed

function expo_down :: "rat \<Rightarrow> int" where
  "expo_down x = (if 0 < x \<and> x < 1 then expo_down (x * 2) - 1 else 0)"
  by pat_completeness auto
termination
proof (relation "measure (\<lambda>x. nat \<lfloor>1 / x\<rfloor>)")
  show "wf (measure (\<lambda>x::rat. nat \<lfloor>1 / x\<rfloor>))" by (rule wf_measure)
next
  fix x :: rat
  assume "0 < x \<and> x < 1"
  then have y: "1 \<le> 1 / x" by simp
  have half: "nat \<lfloor>y / 2\<rfloor> < nat \<lfloor>y\<rfloor>" if "1 \<le> y" for y :: rat
  proof -
    have a: "1 \<le> \<lfloor>y\<rfloor>" using that by (simp add: le_floor_iff)
    then have "(1::rat) \<le> of_int \<lfloor>y\<rfloor>" by simp
    moreover have "y < of_int \<lfloor>y\<rfloor> + 1" by linarith
    ultimately have "y / 2 < of_int \<lfloor>y\<rfloor>" by linarith
    then have "\<lfloor>y / 2\<rfloor> < \<lfloor>y\<rfloor>" by (simp add: floor_less_iff)
    then show ?thesis using a by linarith
  qed
  have "1 / (x * 2) = 1 / x / 2" by simp
  then have "nat \<lfloor>1 / (x * 2)\<rfloor> < nat \<lfloor>1 / x\<rfloor>" using half [OF y] by (simp only:)
  then show "(x * 2, x) \<in> measure (\<lambda>x. nat \<lfloor>1 / x\<rfloor>)" by (simp only: in_measure)
qed

declare expo_up.simps [simp del] expo_down.simps [simp del]

definition expo :: "rat \<Rightarrow> int" where
  "expo x = (if 1 \<le> x then expo_up x else expo_down x)"

text \<open>Rounding to the nearest integer, a tie to the even one.\<close>

definition round_half_even :: "rat \<Rightarrow> int" where
  "round_half_even y =
     (if y - of_int \<lfloor>y\<rfloor> < 1 / 2 then \<lfloor>y\<rfloor>
      else if 1 / 2 < y - of_int \<lfloor>y\<rfloor> then \<lfloor>y\<rfloor> + 1
      else if even \<lfloor>y\<rfloor> then \<lfloor>y\<rfloor> else \<lfloor>y\<rfloor> + 1)"

definition ulp :: "rat \<Rightarrow> rat" where
  "ulp x = 2 powi (max (expo \<bar>x\<bar>) (- 1022) - 52)"

text \<open>The double nearest to \<open>x\<close>, and whether \<open>x\<close> is a double.\<close>

definition to_double :: "rat \<Rightarrow> rat" where
  "to_double x =
     (if x = 0 then 0 else sgn x * (of_int (round_half_even (\<bar>x\<bar> / ulp x)) * ulp x))"


text \<open>
  Line 549:
  \<^verbatim>\<open>'EQ-' + Math.floor(1000 + Math.random() * 9000) + '-' + Math.floor(100 + Math.random() * 900)\<close>
  with the two draws as arguments: the product is rounded, then the sum, then
  \<open>Math.floor\<close> is taken. \<open>Math.random()\<close> returns a double in \<open>[0, 1)\<close>.
\<close>

definition gen_orderId :: "rat \<Rightarrow> rat \<Rightarrow> string" where
  "gen_orderId r1 r2 =
     ''EQ-'' @ show_int \<lfloor>to_double (1000 + to_double (r1 * 9000))\<rfloor> @ ''-'' @
     show_int \<lfloor>to_double (100 + to_double (r2 * 900))\<rfloor>"

text \<open>\<open>!orderData.orderId\<close>: an absent \<open>orderId\<close> and the empty string are both falsy.\<close>

definition falsy :: "string option \<Rightarrow> bool" where
  "falsy v = (case v of None \<Rightarrow> True | Some s \<Rightarrow> s = [])"

text \<open>
  \<open>new Order(orderData)\<close> with the schema defaults of lines 464 and 474--476: \<open>name\<close>
  defaults to Guest, \<open>status\<close> to Pending Verification, \<open>receiptImg\<close> to null, \<open>createdAt\<close>
  to the current time, an array path to the empty array.
\<close>

definition new_customer :: "customer_body option \<Rightarrow> customer" where
  "new_customer c =
     (case c of
        None \<Rightarrow> \<lparr>name = ''Guest'', email = None, address = None\<rparr>
      | Some b \<Rightarrow> \<lparr>name = (case b_name b of None \<Rightarrow> ''Guest'' | Some n \<Rightarrow> n),
                   email = b_email b, address = b_address b\<rparr>)"

definition new_Order :: "timestamp \<Rightarrow> string \<Rightarrow> 'i order_body \<Rightarrow> 'i order" where
  "new_Order t oid b =
     \<lparr>orderId = oid,
      customer = new_customer (b_customer b),
      items = (case b_items b of None \<Rightarrow> [] | Some xs \<Rightarrow> xs),
      paymentMethod = b_paymentMethod b,
      deliveryMethod = b_deliveryMethod b,
      subtotal = b_subtotal b,
      shippingFee = b_shippingFee b,
      order_total = b_total b,
      status = (case b_status b of None \<Rightarrow> ''Pending Verification'' | Some s \<Rightarrow> s),
      receiptImg = b_receiptImg b,
      createdAt = (case b_createdAt b of None \<Rightarrow> t | Some c \<Rightarrow> c)\<rparr>"


section \<open>The route handlers\<close>

text \<open>\<open>GET /api/cart/:sessionId\<close> (lines 495--505).\<close>

definition get_cart :: "env \<Rightarrow> string \<Rightarrow> 'i db \<Rightarrow> 'i db \<times> 'i response" where
  "get_cart e sid st =
     (case fault e of
        Some m \<Rightarrow> (st, 500, Failure m)
      | None \<Rightarrow>
          (case findOne (\<lambda>c. sessionId c = sid) (carts st) of
             None \<Rightarrow> (st, 200, CartDoc sid [] None)
           | Some c \<Rightarrow> (st, 200, CartDoc (sessionId c) (cart_items c) (Some (updatedAt c)))))"

text \<open>\<open>POST /api/cart/:sessionId\<close> (lines 507--518).\<close>

definition post_cart :: "env \<Rightarrow> string \<Rightarrow> 'i list \<Rightarrow> 'i db \<Rightarrow> 'i db \<times> 'i response" where
  "post_cart e sid its st =
     (case fault e of
        Some m \<Rightarrow> (st, 500, Failure m)
      | None \<Rightarrow>
          (st\<lparr>carts := fst (findOneAndUpsert (\<lambda>c. sessionId c = sid)
                              (\<lambda>c. c\<lparr>cart_items := its, updatedAt := now e\<rparr>)
                              \<lparr>sessionId = sid, cart_items = its, updatedAt = now e\<rparr>
                              (carts st))\<rparr>,
           200, Success))"

text \<open>\<open>DELETE /api/cart/:sessionId\<close> (lines 520--527).\<close>

definition delete_cart :: "env \<Rightarrow> string \<Rightarrow> 'i db \<Rightarrow> 'i db \<times> 'i response" where
  "delete_cart e sid st =
     (case fault e of
        Some m \<Rightarrow> (st, 500, Failure m)
      | None \<Rightarrow> (st\<lparr>carts := deleteOne (\<lambda>c. sessionId c = sid) (carts st)\<rparr>, 200, Success))"

text \<open>
  \<open>POST /api/admin/login\<close> (lines 531--542). \<open>process.env.ADMIN_PASSWORD || 'equineadmin123'\<close>:
  an unset variable and the empty string both give the fallback.
\<close>

definition validPassword :: "string option \<Rightarrow> string" where
  "validPassword env_pw = (if falsy env_pw then ''equineadmin123'' else the env_pw)"

definition post_admin_login :: "string option \<Rightarrow> string \<Rightarrow> 'i response" where
  "post_admin_login env_pw password =
     (if password = validPassword env_pw then (200, Token ''secure_admin_session_active'')
      else (401, Failure ''Unauthorized''))"

text \<open>\<open>POST /api/orders\<close> (lines 545--558).\<close>

definition post_orders :: "env \<Rightarrow> 'i order_body \<Rightarrow> 'i db \<Rightarrow> 'i db \<times> 'i response" where
  "post_orders e b st =
     (let oid = (if falsy (b_orderId b) then gen_orderId (random1 e) (random2 e)
                 else the (b_orderId b));
          newOrder = new_Order (now e) oid b
      in case fault e of
           Some m \<Rightarrow> (st, 500, Failure m)
         | None \<Rightarrow>
             (case save newOrder (orders st) of
                Inl m \<Rightarrow> (st, 500, Failure m)
              | Inr ds \<Rightarrow> (st\<lparr>orders := ds\<rparr>, 201, Created oid newOrder)))"

text \<open>
  \<open>POST /api/upload-receipt/:orderId\<close> (lines 561--577). \<open>req.file\<close> is undefined when the
  request carries no file in the field \<open>receipt\<close>; reading \<open>req.file.filename\<close> then throws
  inside the \<open>try\<close>, before the store is called.
\<close>

definition no_file_msg :: string where
  "no_file_msg = ''Cannot read properties of undefined''"

definition fileUrl :: "string \<Rightarrow> string \<Rightarrow> string \<Rightarrow> string" where
  "fileUrl protocol host filename = protocol @ ''://'' @ host @ ''/uploads/'' @ filename"

definition attach :: "string \<Rightarrow> 'i order \<Rightarrow> 'i order" where
  "attach url d = d\<lparr>receiptImg := Some url, status := ''Pending Verification''\<rparr>"

definition post_upload_receipt ::
  "env \<Rightarrow> string \<Rightarrow> string \<Rightarrow> string \<Rightarrow> string option \<Rightarrow> 'i db \<Rightarrow> 'i db \<times> 'i response" where
  "post_upload_receipt e oid protocol host file st =
     (case file of
        None \<Rightarrow> (st, 500, Failure no_file_msg)
      | Some filename \<Rightarrow>
          (case fault e of
             Some m \<Rightarrow> (st, 500, Failure m)
           | None \<Rightarrow>
               (let r = findOneAndUpdate (\<lambda>d. orderId d = oid)
                          (attach (fileUrl protocol host filename)) (orders st)
                in (st\<lparr>orders := fst r\<rparr>, 200,
                    Uploaded (fileUrl protocol host filename) (snd r)))))"

text \<open>
  \<open>GET /api/admin/orders\<close> (lines 579--586): newest first. The order of documents with the
  same \<open>createdAt\<close> is the store's choice; here they keep their insertion order.
\<close>

definition get_admin_orders :: "env \<Rightarrow> 'i db \<Rightarrow> 'i db \<times> 'i response" where
  "get_admin_orders e st =
     (case fault e of
        Some m \<Rightarrow> (st, 500, Failure m)
      | None \<Rightarrow> (st, 200, OrderList (sort_key (\<lambda>d. - createdAt d) (orders st))))"

text \<open>\<open>PUT /api/admin/orders/:orderId/status\<close> (lines 588--600).\<close>

definition put_order_status :: "env \<Rightarrow> string \<Rightarrow> string \<Rightarrow> 'i db \<Rightarrow> 'i db \<times> 'i response" where
  "put_order_status e oid s st =
     (case fault e of
        Some m \<Rightarrow> (st, 500, Failure m)
      | None \<Rightarrow>
          (let r = findOneAndUpdate (\<lambda>d. orderId d = oid) (\<lambda>d. d\<lparr>status := s\<rparr>) (orders st)
           in (st\<lparr>orders := fst r\<rparr>, 200, Updated (snd r))))"

text \<open>\<open>GET /api/track/:orderId\<close> (lines 602--618).\<close>

definition get_track :: "env \<Rightarrow> string \<Rightarrow> 'i db \<Rightarrow> 'i db \<times> 'i response" where
  "get_track e oid st =
     (case fault e of
        Some m \<Rightarrow> (st, 500, Failure m)
      | None \<Rightarrow>
          (case findOne (\<lambda>d. orderId d = oid) (orders st) of
             None \<Rightarrow> (st, 404, Failure ''Order not found'')
           | Some d \<Rightarrow>
               (st, 200,
                Tracked (status d) (name (customer d)) (order_total d) (orderId d) (createdAt d))))"

text \<open>The server as a whole: one request, dispatched to its handler.\<close>

fun handle :: "string option \<Rightarrow> env \<Rightarrow> 'i request \<Rightarrow> 'i db \<Rightarrow> 'i db \<times> 'i response" where
  "handle pw e (GetCart sid) st = get_cart e sid st"
| "handle pw e (PostCart sid its) st = post_cart e sid its st"
| "handle pw e (DeleteCart sid) st = delete_cart e sid st"
| "handle pw e (PostAdminLogin p) st = (st, post_admin_login pw p)"
| "handle pw e (PostOrders b) st = post_orders e b st"
| "handle pw e (PostUploadReceipt oid protocol host file) st =
     post_upload_receipt e oid protocol host file st"
| "handle pw e GetAdminOrders st = get_admin_orders e st"
| "handle pw e (PutOrderStatus oid s) st = put_order_status e oid s st"
| "handle pw e (GetTrack oid) st = get_track e oid st"

text \<open>A sequence of requests, each with its own environment, run from a state.\<close>

fun run :: "string option \<Rightarrow> (env \<times> 'i request) list \<Rightarrow> 'i db \<Rightarrow> 'i db" where
  "run pw [] st = st"
| "run pw (x # xs) st = run pw xs (fst (handle pw (fst x) (snd x) st))"

text \<open>Whether a request replaces the cart of a session, which order an update names, and
  whether a request is one of the two operations that update an order.\<close>

fun replaces :: "string \<Rightarrow> 'i request \<Rightarrow> bool" where
  "replaces sid (PostCart s its) = (s = sid)"
| "replaces sid r = False"

fun target :: "'i request \<Rightarrow> string option" where
  "target (PutOrderStatus oid s) = Some oid"
| "target (PostUploadReceipt oid protocol host file) = Some oid"
| "target r = None"

fun updates_only :: "'i request \<Rightarrow> bool" where
  "updates_only (PutOrderStatus oid s) = True"
| "updates_only (PostUploadReceipt oid protocol host file) = True"
| "updates_only r = False"


section \<open>Concrete states and requests\<close>

definition env_ok :: env where
  "env_ok = \<lparr>now = 1700000000000, random1 = 0, random2 = 0, fault = None\<rparr>"

definition order_a :: "nat order" where
  "order_a =
     \<lparr>orderId = ''EQ-1000-100'',
      customer = \<lparr>name = ''Ada'', email = None, address = None\<rparr>,
      items = [1, 2],
      paymentMethod = None, deliveryMethod = None, subtotal = None, shippingFee = None,
      order_total = Some 100,
      status = ''Shipped'', receiptImg = None, createdAt = 1600000000000\<rparr>"

definition order_b :: "nat order" where
  "order_b =
     \<lparr>orderId = ''EQ-2000-200'',
      customer = \<lparr>name = ''Guest'', email = None, address = None\<rparr>,
      items = [5],
      paymentMethod = None, deliveryMethod = None, subtotal = None, shippingFee = None,
      order_total = Some 40,
      status = ''Delivered'', receiptImg = Some ''https://shop.example/uploads/receipt-0.png'',
      createdAt = 1610000000000\<rparr>"

definition db_two :: "nat db" where
  "db_two = \<lparr>orders = [order_a, order_b], carts = []\<rparr>"



definition db_empty :: "nat db" where
  "db_empty = \<lparr>orders = [], carts = []\<rparr>"

definition db_one :: "nat db" where
  "db_one = \<lparr>orders = [order_a], carts = []\<rparr>"

definition cart_a :: "nat cart" where
  "cart_a = \<lparr>sessionId = ''s1'', cart_items = [7, 8, 9], updatedAt = 1650000000000\<rparr>"

definition db_cart :: "nat db" where
  "db_cart = \<lparr>orders = [order_a], carts = [cart_a]\<rparr>"


definition body_none :: "nat order_body" where
  "body_none =
     \<lparr>b_orderId = None, b_customer = None, b_items = Some [3], b_paymentMethod = None,
      b_deliveryMethod = None, b_subtotal = None, b_shippingFee = None, b_total = Some 100,
      b_status = None, b_receiptImg = None, b_createdAt = None\<rparr>"

definition body_supplied :: "string \<Rightarrow> nat order_body" where
  "body_supplied oid = body_none\<lparr>b_orderId := Some oid\<rparr>"


section \<open>Properties of the gateway operations\<close>

lemma findOne_None_iff: "findOne p xs = None \<longleftrightarrow> (\<forall>x\<in>set xs. \<not> p x)"
  by (induction xs) auto

lemma findOne_SomeD: "findOne p xs = Some x \<Longrightarrow> x \<in> set xs \<and> p x"
  by (induction xs) (auto split: if_splits)

lemma update_result: "snd (findOneAndUpdate p u xs) = map_option u (findOne p xs)"
  by (induction xs) auto

lemma update_no_match: "findOne p xs = None \<Longrightarrow> fst (findOneAndUpdate p u xs) = xs"
  by (induction xs) (auto split: if_splits)

lemma update_length: "length (fst (findOneAndUpdate p u xs)) = length xs"
  by (induction xs) auto

lemma update_then_find:
  "(\<And>x. p x \<Longrightarrow> p (u x)) \<Longrightarrow> findOne p (fst (findOneAndUpdate p u xs)) = map_option u (findOne p xs)"
  by (induction xs) auto

lemma update_map_frame:
  "(\<And>x. f (u x) = f x) \<Longrightarrow> map f (fst (findOneAndUpdate p u xs)) = map f xs"
  by (induction xs) auto

lemma update_idem:
  "(\<And>x. p x \<Longrightarrow> p (u x)) \<Longrightarrow> (\<And>x. u (u x) = u x) \<Longrightarrow>
   fst (findOneAndUpdate p u (fst (findOneAndUpdate p u xs))) = fst (findOneAndUpdate p u xs)"
  by (induction xs) auto














lemma round_half_even_int: "round_half_even (of_int k) = k"
  by (simp add: round_half_even_def)
















section \<open>Receipt upload\<close>

text \<open>
  C1 (as amended). The response of the receipt upload: 500 when the request carries no file
  or the store call fails; otherwise 200 with the file URL and the updated order, and when
  no order has the given \<open>orderId\<close> still 200 with the file URL, a null order and no change
  of state.
\<close>

theorem upload_receipt_response:
  "(post_upload_receipt e oid pr h None st = (st, 500, Failure no_file_msg)) \<and>
   (fault e = Some m \<longrightarrow> post_upload_receipt e oid pr h (Some fn) st = (st, 500, Failure m)) \<and>
   (fault e = None \<and> findOne (\<lambda>d. orderId d = oid) (orders st) = None \<longrightarrow>
      post_upload_receipt e oid pr h (Some fn) st = (st, 200, Uploaded (fileUrl pr h fn) None)) \<and>
   (fault e = None \<and> findOne (\<lambda>d. orderId d = oid) (orders st) = Some d \<longrightarrow>
      snd (post_upload_receipt e oid pr h (Some fn) st) =
        (200, Uploaded (fileUrl pr h fn)
                (Some (d\<lparr>receiptImg := Some (fileUrl pr h fn), status := ''Pending Verification''\<rparr>))))"
  by (simp add: post_upload_receipt_def update_result update_no_match attach_def)

theorem upload_receipt_response_witness:
  "post_upload_receipt env_ok ''EQ-1000-100'' ''https'' ''shop.example'' None db_one
     = (db_one, 500, Failure no_file_msg) \<and>
   fault (env_ok\<lparr>fault := Some ''timeout''\<rparr>) = Some ''timeout'' \<and>
   post_upload_receipt (env_ok\<lparr>fault := Some ''timeout''\<rparr>) ''EQ-1000-100'' ''https'' ''shop.example''
       (Some ''receipt-1.png'') db_one = (db_one, 500, Failure ''timeout'') \<and>
   fault env_ok = None \<and> findOne (\<lambda>d. orderId d = ''EQ-2000-200'') (orders db_one) = None \<and>
   post_upload_receipt env_ok ''EQ-2000-200'' ''https'' ''shop.example'' (Some ''receipt-1.png'') db_one
     = (db_one, 200, Uploaded ''https://shop.example/uploads/receipt-1.png'' None) \<and>
   findOne (\<lambda>d. orderId d = ''EQ-1000-100'') (orders db_one) = Some order_a \<and>
   snd (post_upload_receipt env_ok ''EQ-1000-100'' ''https'' ''shop.example'' (Some ''receipt-1.png'') db_one)
     = (200, Uploaded ''https://shop.example/uploads/receipt-1.png''
               (Some (order_a\<lparr>receiptImg := Some ''https://shop.example/uploads/receipt-1.png'',
                              status := ''Pending Verification''\<rparr>)))"
proof -
  have h1: "fault (env_ok\<lparr>fault := Some ''timeout''\<rparr>) = Some ''timeout''" by simp
  have h2: "fault env_ok = None" by (simp add: env_ok_def)
  have h3: "findOne (\<lambda>d. orderId d = ''EQ-2000-200'') (orders db_one) = None"
    by (simp add: db_one_def order_a_def)
  have h4: "findOne (\<lambda>d. orderId d = ''EQ-1000-100'') (orders db_one) = Some order_a"
    by (simp add: db_one_def order_a_def)
  have u: "fileUrl ''https'' ''shop.example'' ''receipt-1.png'' = ''https://shop.example/uploads/receipt-1.png''"
    by (simp add: fileUrl_def)
  show ?thesis
    using h1 h2 h3 h4
      upload_receipt_response [of env_ok "''EQ-1000-100''" "''https''" "''shop.example''" db_one
         "''timeout''" "''receipt-1.png''" order_a]
      upload_receipt_response [of "env_ok\<lparr>fault := Some ''timeout''\<rparr>" "''EQ-1000-100''" "''https''"
         "''shop.example''" db_one "''timeout''" "''receipt-1.png''" order_a]
      upload_receipt_response [of env_ok "''EQ-2000-200''" "''https''" "''shop.example''" db_one
         "''timeout''" "''receipt-1.png''" order_a]
    by (simp add: u)
qed

text \<open>
  C1 as stated fails: an upload for an \<open>orderId\<close> that no order has is answered with 200,
  not 500.
\<close>

theorem upload_receipt_unknown_order_counterexample:
  "findOne (\<lambda>d. orderId d = ''EQ-1000-100'') (orders db_empty) = None \<and>
   post_upload_receipt env_ok ''EQ-1000-100'' ''https'' ''shop.example'' (Some ''receipt-1.png'') db_empty
     = (db_empty, 200, Uploaded ''https://shop.example/uploads/receipt-1.png'' None)"
  by (simp add: post_upload_receipt_def db_empty_def env_ok_def fileUrl_def)

lemma attach_keeps_key: "orderId (attach url d) = orderId d"
  by (simp add: attach_def)

lemma update_status_column:
  "(\<And>x. p x \<Longrightarrow> f (u x) = c) \<Longrightarrow> (\<And>x. p x \<Longrightarrow> p (v x)) \<Longrightarrow> (\<And>x. f (v x) = c) \<Longrightarrow>
   map f (fst (findOneAndUpdate p u (fst (findOneAndUpdate p v xs)))) = map f (fst (findOneAndUpdate p v xs))"
  by (induction xs) auto

text \<open>
  C2. When an order with the given \<open>orderId\<close> exists, a receipt upload leaves it with
  \<open>receiptImg\<close> equal to the URL of the uploaded file and \<open>status\<close> equal to
  Pending Verification, whatever its status was. A second upload, of any file, leaves the
  status of every order as the first upload left it, and repeating the same upload changes
  nothing at all.
\<close>

theorem attach_receipt_effect:
  assumes "fault e = None" and "fault e' = None"
    and "findOne (\<lambda>x. orderId x = oid) (orders st) = Some d"
  shows "let st1 = fst (post_upload_receipt e oid pr h (Some fn) st);
             st2 = fst (post_upload_receipt e' oid pr' h' (Some fn') st1)
         in findOne (\<lambda>x. orderId x = oid) (orders st1)
              = Some (d\<lparr>receiptImg := Some (fileUrl pr h fn), status := ''Pending Verification''\<rparr>) \<and>
            findOne (\<lambda>x. orderId x = oid) (orders st2)
              = Some (d\<lparr>receiptImg := Some (fileUrl pr' h' fn'), status := ''Pending Verification''\<rparr>) \<and>
            map status (orders st2) = map status (orders st1) \<and>
            fst (post_upload_receipt e' oid pr h (Some fn) st1) = st1"
proof -
  let ?p = "\<lambda>x::'a order. orderId x = oid"
  let ?u = "attach (fileUrl pr h fn) :: 'a order \<Rightarrow> 'a order"
  let ?v = "attach (fileUrl pr' h' fn') :: 'a order \<Rightarrow> 'a order"
  have keep: "\<And>u x. ?p x \<Longrightarrow> ?p (attach u x)" by (simp add: attach_def)
  have f1: "findOne ?p (fst (findOneAndUpdate ?p ?u (orders st))) = Some (?u d)"
    by (subst update_then_find) (simp_all add: attach_keeps_key assms(3))
  have f2: "findOne ?p (fst (findOneAndUpdate ?p ?v (fst (findOneAndUpdate ?p ?u (orders st)))))
              = Some (?v (?u d))"
    by (subst update_then_find) (simp_all add: attach_keeps_key f1)
  have col: "map status (fst (findOneAndUpdate ?p ?v (fst (findOneAndUpdate ?p ?u (orders st)))))
              = map status (fst (findOneAndUpdate ?p ?u (orders st)))"
    by (rule update_status_column) (simp_all add: attach_def)
  have idem: "fst (findOneAndUpdate ?p ?u (fst (findOneAndUpdate ?p ?u (orders st))))
              = fst (findOneAndUpdate ?p ?u (orders st))"
    by (rule update_idem) (simp_all add: attach_def)
  show ?thesis
    using assms(1,2) f1 f2 col idem
    by (simp add: post_upload_receipt_def Let_def attach_def)
qed

theorem attach_receipt_effect_witness:
  "fault env_ok = None \<and>
   findOne (\<lambda>x. orderId x = ''EQ-1000-100'') (orders db_one) = Some order_a \<and>
   status order_a = ''Shipped'' \<and>
   orders (fst (post_upload_receipt env_ok ''EQ-1000-100'' ''https'' ''shop.example''
                  (Some ''receipt-1.png'') db_one))
     = [order_a\<lparr>receiptImg := Some ''https://shop.example/uploads/receipt-1.png'',
                status := ''Pending Verification''\<rparr>]"
proof -
  have h1: "fault env_ok = None" by (simp add: env_ok_def)
  have h2: "findOne (\<lambda>x. orderId x = ''EQ-1000-100'') (orders db_one) = Some order_a"
    by (simp add: db_one_def order_a_def)
  have "length (orders (fst (post_upload_receipt env_ok ''EQ-1000-100'' ''https'' ''shop.example''
                  (Some ''receipt-1.png'') db_one))) = 1"
    by (simp add: post_upload_receipt_def env_ok_def db_one_def)
  then obtain x where x: "orders (fst (post_upload_receipt env_ok ''EQ-1000-100'' ''https''
                  ''shop.example'' (Some ''receipt-1.png'') db_one)) = [x]"
    by (auto simp: length_Suc_conv)
  have "findOne (\<lambda>x. orderId x = ''EQ-1000-100'') [x]
          = Some (order_a\<lparr>receiptImg := Some (fileUrl ''https'' ''shop.example'' ''receipt-1.png''),
                         status := ''Pending Verification''\<rparr>)"
    using attach_receipt_effect [OF h1 h1 h2, of "''https''" "''shop.example''" "''receipt-1.png''"
            "''https''" "''shop.example''" "''receipt-1.png''"] x
    by (simp add: Let_def)
  then have "x = order_a\<lparr>receiptImg := Some (fileUrl ''https'' ''shop.example'' ''receipt-1.png''),
                         status := ''Pending Verification''\<rparr>"
    by (simp split: if_splits)
  then show ?thesis using h1 h2 x by (simp add: fileUrl_def order_a_def)
qed



section \<open>Status update and tracking\<close>

text \<open>
  C3. The status update replaces the status of the matching order by the supplied string,
  with no condition on either, and returns the updated document; when no order matches,
  the state is unchanged and the response is still 200 with a success body (and a null
  order).
\<close>

theorem put_order_status_effect:
  assumes "fault e = None"
  shows "(findOne (\<lambda>x. orderId x = oid) (orders st) = Some d \<longrightarrow>
            snd (put_order_status e oid s st) = (200, Updated (Some (d\<lparr>status := s\<rparr>))) \<and>
            findOne (\<lambda>x. orderId x = oid) (orders (fst (put_order_status e oid s st)))
              = Some (d\<lparr>status := s\<rparr>)) \<and>
         (findOne (\<lambda>x. orderId x = oid) (orders st) = None \<longrightarrow>
            put_order_status e oid s st = (st, 200, Updated None))"
  using assms
  by (simp add: put_order_status_def Let_def update_result update_no_match update_then_find)

theorem put_order_status_effect_witness:
  "fault env_ok = None \<and>
   findOne (\<lambda>x. orderId x = ''EQ-1000-100'') (orders db_one) = Some order_a \<and>
   snd (put_order_status env_ok ''EQ-1000-100'' ''Approved'' db_one)
     = (200, Updated (Some (order_a\<lparr>status := ''Approved''\<rparr>))) \<and>
   findOne (\<lambda>x. orderId x = ''EQ-1000-100'')
      (orders (fst (put_order_status env_ok ''EQ-1000-100'' ''Approved'' db_one)))
     = Some (order_a\<lparr>status := ''Approved''\<rparr>) \<and>
   findOne (\<lambda>x. orderId x = ''EQ-2000-200'') (orders db_one) = None \<and>
   put_order_status env_ok ''EQ-2000-200'' ''Approved'' db_one = (db_one, 200, Updated None)"
proof -
  have h1: "fault env_ok = None" by (simp add: env_ok_def)
  have h2: "findOne (\<lambda>x. orderId x = ''EQ-1000-100'') (orders db_one) = Some order_a"
    by (simp add: db_one_def order_a_def)
  have h3: "findOne (\<lambda>x. orderId x = ''EQ-2000-200'') (orders db_one) = None"
    by (simp add: db_one_def order_a_def)
  show ?thesis
    using h1 h2 h3
      put_order_status_effect [OF h1, of "''EQ-1000-100''" db_one order_a "''Approved''"]
      put_order_status_effect [OF h1, of "''EQ-2000-200''" db_one order_a "''Approved''"]
    by simp
qed

text \<open>
  C6. Tracking compares \<open>orderId\<close> for equality. When no order matches, the response is
  404 with the message Order not found; when one matches, it is 200 with that order's
  status, customer name, total, \<open>orderId\<close> and \<open>createdAt\<close>. Neither is the generic 500.
\<close>

theorem get_track_lookup:
  assumes "fault e = None"
  shows "((\<forall>x\<in>set (orders st). orderId x \<noteq> oid) \<longrightarrow>
            get_track e oid st = (st, 404, Failure ''Order not found'')) \<and>
         ((\<exists>x\<in>set (orders st). orderId x = oid) \<longrightarrow>
            (\<exists>d\<in>set (orders st). orderId d = oid \<and>
               get_track e oid st =
                 (st, 200, Tracked (status d) (name (customer d)) (order_total d) (orderId d)
                             (createdAt d)))) \<and>
         fst (snd (get_track e oid st)) \<noteq> 500"
proof -
  have a: "(\<forall>x\<in>set (orders st). orderId x \<noteq> oid) \<Longrightarrow>
             get_track e oid st = (st, 404, Failure ''Order not found'')"
    using assms by (simp add: get_track_def findOne_None_iff [THEN iffD2])
  have b: "\<exists>d\<in>set (orders st). orderId d = oid \<and>
               get_track e oid st =
                 (st, 200, Tracked (status d) (name (customer d)) (order_total d) (orderId d)
                             (createdAt d))"
    if "\<exists>x\<in>set (orders st). orderId x = oid"
  proof -
    from that have "findOne (\<lambda>x. orderId x = oid) (orders st) \<noteq> None"
      by (simp add: findOne_None_iff)
    then obtain d where d: "findOne (\<lambda>x. orderId x = oid) (orders st) = Some d" by auto
    then have "d \<in> set (orders st)" "orderId d = oid" using findOne_SomeD [OF d] by simp_all
    then show ?thesis using assms d by (auto simp: get_track_def)
  qed
  have c: "fst (snd (get_track e oid st)) \<noteq> 500"
    using assms by (simp add: get_track_def split: option.splits)
  show ?thesis using a b c by blast
qed

theorem get_track_lookup_witness:
  "fault env_ok = None \<and>
   get_track env_ok ''EQ-2000-200'' db_one = (db_one, 404, Failure ''Order not found'') \<and>
   get_track env_ok ''EQ-1000-100'' db_one
     = (db_one, 200, Tracked ''Shipped'' ''Ada'' (Some 100) ''EQ-1000-100'' 1600000000000)"
proof -
  have h1: "fault env_ok = None" by (simp add: env_ok_def)
  have s: "set (orders db_one) = {order_a}" by (simp add: db_one_def)
  have f: "orderId order_a = ''EQ-1000-100''" "status order_a = ''Shipped''"
    "name (customer order_a) = ''Ada''" "order_total order_a = Some 100"
    "createdAt order_a = 1600000000000"
    by (simp_all add: order_a_def)
  show ?thesis
    using h1 get_track_lookup [OF h1, of db_one "''EQ-2000-200''"]
      get_track_lookup [OF h1, of db_one "''EQ-1000-100''"]
    by (simp add: s f)
qed


section \<open>Session carts\<close>

lemma findOne_append:
  "findOne p (xs @ ys) = (case findOne p xs of None \<Rightarrow> findOne p ys | Some x \<Rightarrow> Some x)"
  by (induction xs) auto

lemma upsert_then_find:
  assumes "\<And>x. p x \<Longrightarrow> p (u x)" and "p d"
  shows "findOne p (fst (findOneAndUpsert p u d xs))
           = Some (case findOne p xs of None \<Rightarrow> d | Some x \<Rightarrow> u x)"
proof (cases "findOne p xs")
  case None
  then show ?thesis using assms(2)
    by (simp add: findOneAndUpsert_def update_result findOne_append)
next
  case (Some x)
  then show ?thesis using assms(1)
    by (simp add: findOneAndUpsert_def update_result update_then_find)
qed

lemma upsert_absent:
  "findOne p xs = None \<Longrightarrow> fst (findOneAndUpsert p u d xs) = xs @ [d]"
  by (simp add: findOneAndUpsert_def update_result)

lemma upsert_present:
  "findOne p xs \<noteq> None \<Longrightarrow> length (fst (findOneAndUpsert p u d xs)) = length xs"
  by (auto simp: findOneAndUpsert_def update_result update_length)

lemma update_other_key:
  assumes "\<And>x. q (u x) = q x" and "\<And>x. p x \<Longrightarrow> \<not> q x"
  shows "findOne q (fst (findOneAndUpdate p u xs)) = findOne q xs"
  using assms by (induction xs) auto

lemma upsert_other_key:
  assumes "\<And>x. q (u x) = q x" and "\<And>x. p x \<Longrightarrow> \<not> q x" and "\<not> q d"
  shows "findOne q (fst (findOneAndUpsert p u d xs)) = findOne q xs"
  using assms
  by (auto simp: findOneAndUpsert_def update_other_key findOne_append split: option.splits)


text \<open>
  C7. Replacing the cart of a session and then reading it returns exactly the items passed
  to the replacement and the time of the replacement, whatever the session's cart held
  before: the cart is created when the session has none, overwritten in place otherwise,
  and the carts of other sessions are not touched.
\<close>

theorem cart_replace_then_get:
  assumes "fault e = None" and "fault e' = None"
  shows "snd (post_cart e sid its st) = (200, Success) \<and>
         snd (get_cart e' sid (fst (post_cart e sid its st))) = (200, CartDoc sid its (Some (now e))) \<and>
         (findOne (\<lambda>c. sessionId c = sid) (carts st) = None \<longrightarrow>
            carts (fst (post_cart e sid its st))
              = carts st @ [\<lparr>sessionId = sid, cart_items = its, updatedAt = now e\<rparr>]) \<and>
         (findOne (\<lambda>c. sessionId c = sid) (carts st) \<noteq> None \<longrightarrow>
            length (carts (fst (post_cart e sid its st))) = length (carts st)) \<and>
         (sid' \<noteq> sid \<longrightarrow>
            findOne (\<lambda>c. sessionId c = sid') (carts (fst (post_cart e sid its st)))
              = findOne (\<lambda>c. sessionId c = sid') (carts st))"
proof -
  let ?p = "\<lambda>c::'a cart. sessionId c = sid"
  let ?u = "\<lambda>c::'a cart. c\<lparr>cart_items := its, updatedAt := now e\<rparr>"
  let ?d = "\<lparr>sessionId = sid, cart_items = its, updatedAt = now e\<rparr> :: 'a cart"
  have found: "findOne ?p (fst (findOneAndUpsert ?p ?u ?d (carts st)))
                 = Some (case findOne ?p (carts st) of None \<Rightarrow> ?d | Some x \<Rightarrow> ?u x)"
    by (rule upsert_then_find) simp_all
  have st': "carts (fst (post_cart e sid its st)) = fst (findOneAndUpsert ?p ?u ?d (carts st))"
    using assms by (simp add: post_cart_def)
  have get: "snd (get_cart e' sid (fst (post_cart e sid its st)))
               = (200, CartDoc sid its (Some (now e)))"
  proof (cases "findOne ?p (carts st)")
    case None
    then have "findOne ?p (carts (fst (post_cart e sid its st))) = Some ?d"
      unfolding st' using found by simp
    then show ?thesis using assms(2) by (simp add: get_cart_def)
  next
    case (Some x)
    then have "sessionId x = sid" using findOne_SomeD [of ?p "carts st" x] by simp
    moreover have "findOne ?p (carts (fst (post_cart e sid its st))) = Some (?u x)"
      unfolding st' using found Some by simp
    ultimately show ?thesis using assms(2) by (simp add: get_cart_def)
  qed
  have other: "sid' \<noteq> sid \<Longrightarrow>
      findOne (\<lambda>c. sessionId c = sid') (fst (findOneAndUpsert ?p ?u ?d (carts st)))
        = findOne (\<lambda>c. sessionId c = sid') (carts st)"
    by (rule upsert_other_key) simp_all
  have resp: "snd (post_cart e sid its st) = (200, Success)"
    using assms by (simp add: post_cart_def)
  have absent: "findOne ?p (carts st) = None \<Longrightarrow>
      carts (fst (post_cart e sid its st)) = carts st @ [?d]"
    unfolding st' by (rule upsert_absent)
  have present: "findOne ?p (carts st) \<noteq> None \<Longrightarrow>
      length (carts (fst (post_cart e sid its st))) = length (carts st)"
    unfolding st' by (rule upsert_present)
  have other': "sid' \<noteq> sid \<Longrightarrow>
      findOne (\<lambda>c. sessionId c = sid') (carts (fst (post_cart e sid its st)))
        = findOne (\<lambda>c. sessionId c = sid') (carts st)"
    unfolding st' by (rule other)
  show ?thesis
    using resp get absent present other' by blast
qed


theorem cart_replace_then_get_witness:
  "fault env_ok = None \<and>
   findOne (\<lambda>c. sessionId c = ''s1'') (carts db_cart) = Some cart_a \<and>
   cart_items cart_a = [7, 8, 9] \<and>
   snd (get_cart env_ok ''s1'' (fst (post_cart env_ok ''s1'' [4, 5] db_cart)))
     = (200, CartDoc ''s1'' [4, 5] (Some 1700000000000)) \<and>
   findOne (\<lambda>c. sessionId c = ''s2'') (carts db_cart) = None \<and>
   snd (get_cart env_ok ''s2'' (fst (post_cart env_ok ''s2'' [4, 5] db_cart)))
     = (200, CartDoc ''s2'' [4, 5] (Some 1700000000000)) \<and>
   carts (fst (post_cart env_ok ''s2'' [4, 5] db_cart))
     = [cart_a, \<lparr>sessionId = ''s2'', cart_items = [4, 5], updatedAt = 1700000000000\<rparr>]"
proof -
  have h1: "fault env_ok = None" by (simp add: env_ok_def)
  have h2: "findOne (\<lambda>c. sessionId c = ''s1'') (carts db_cart) = Some cart_a"
    by (simp add: db_cart_def cart_a_def)
  have h3: "findOne (\<lambda>c. sessionId c = ''s2'') (carts db_cart) = None"
    by (simp add: db_cart_def cart_a_def)
  have n: "now env_ok = 1700000000000" by (simp add: env_ok_def)
  have c: "carts db_cart = [cart_a]" "cart_items cart_a = [7, 8, 9]"
    by (simp_all add: db_cart_def cart_a_def)
  show ?thesis
    using h1 h2 h3
      cart_replace_then_get [OF h1 h1, of "''s1''" "[4, 5]" db_cart "''s2''"]
      cart_replace_then_get [OF h1 h1, of "''s2''" "[4, 5]" db_cart "''s1''"]
    by (simp add: n c)
qed


lemma update_set: "set (fst (findOneAndUpdate p u xs)) \<subseteq> set xs \<union> u ` set xs"
  by (induction xs) auto

lemma deleteOne_set: "set (deleteOne p xs) \<subseteq> set xs"
  by (induction xs) auto

lemma upsert_set: "set (fst (findOneAndUpsert p u d xs)) \<subseteq> set xs \<union> u ` set xs \<union> {d}"
  using update_set [of p u xs]
  by (auto simp: findOneAndUpsert_def split: option.splits)

lemma handle_keeps_absent:
  assumes "\<forall>c\<in>set (carts st). sessionId c \<noteq> sid" and "\<not> replaces sid r"
  shows "\<forall>c\<in>set (carts (fst (handle pw e r st))). sessionId c \<noteq> sid"
proof (cases r)
  case (PostCart s its)
  then have "s \<noteq> sid" using assms(2) by simp
  then show ?thesis
    using assms(1) PostCart
      upsert_set [of "\<lambda>c. sessionId c = s" "\<lambda>c. c\<lparr>cart_items := its, updatedAt := now e\<rparr>"
        "\<lparr>sessionId = s, cart_items = its, updatedAt = now e\<rparr>" "carts st"]
    by (fastforce simp: post_cart_def split: option.splits)
next
  case (DeleteCart s)
  then show ?thesis
    using assms(1) deleteOne_set [of "\<lambda>c. sessionId c = s" "carts st"]
    by (auto simp: delete_cart_def split: option.splits)
next
  case (PostOrders b)
  then show ?thesis
    using assms(1) by (auto simp: post_orders_def Let_def split: option.splits sum.splits)
qed (use assms(1) in \<open>auto simp: get_cart_def post_upload_receipt_def get_admin_orders_def
      put_order_status_def get_track_def Let_def split: option.splits\<close>)

lemma run_keeps_absent:
  "\<forall>c\<in>set (carts st). sessionId c \<noteq> sid \<Longrightarrow> \<forall>x\<in>set reqs. \<not> replaces sid (snd x) \<Longrightarrow>
   \<forall>c\<in>set (carts (run pw reqs st)). sessionId c \<noteq> sid"
proof (induction reqs arbitrary: st)
  case Nil
  then show ?case by simp
next
  case (Cons x reqs)
  have "\<forall>c\<in>set (carts (fst (handle pw (fst x) (snd x) st))). sessionId c \<noteq> sid"
    using Cons.prems by (intro handle_keeps_absent) simp_all
  then show ?case using Cons.IH Cons.prems(2) by simp
qed

text \<open>
  C8. Reading the cart of a session that has no stored cart returns 200 with the session id
  and an empty item sequence, not an error; in particular after any sequence of requests,
  from the empty store, none of which replaces the cart of that session.
\<close>

theorem get_cart_missing_session:
  assumes "fault e = None"
  shows "((\<forall>c\<in>set (carts st). sessionId c \<noteq> sid) \<longrightarrow>
            get_cart e sid (st :: 'i db) = (st, 200, CartDoc sid [] None)) \<and>
         ((\<forall>x\<in>set (reqs :: (env \<times> 'i request) list). \<not> replaces sid (snd x)) \<longrightarrow>
            snd (get_cart e sid (run pw reqs \<lparr>orders = [], carts = []\<rparr>))
              = (200, CartDoc sid [] None))"
proof -
  have a: "get_cart e sid s = (s, 200, CartDoc sid [] None)"
    if "\<forall>c\<in>set (carts s). sessionId c \<noteq> sid" for s :: "'i db"
    using that assms by (simp add: get_cart_def findOne_None_iff [THEN iffD2])
  have b: "\<forall>c\<in>set (carts (run pw reqs \<lparr>orders = [], carts = []\<rparr>)). sessionId c \<noteq> sid"
    if "\<forall>x\<in>set reqs. \<not> replaces sid (snd x)"
    using that by (intro run_keeps_absent) simp_all
  have c: "snd (get_cart e sid (run pw reqs \<lparr>orders = [], carts = []\<rparr>)) = (200, CartDoc sid [] None)"
    if "\<forall>x\<in>set reqs. \<not> replaces sid (snd x)"
    using a [OF b [OF that]] by simp
  show ?thesis using a c by blast
qed

theorem get_cart_missing_session_witness:
  "fault env_ok = None \<and>
   get_cart env_ok ''s2'' db_cart = (db_cart, 200, CartDoc ''s2'' [] None) \<and>
   snd (get_cart env_ok ''s2''
          (run None [(env_ok, PostCart ''s1'' [4, 5]), (env_ok, DeleteCart ''s2'')] db_empty))
     = (200, CartDoc ''s2'' [] None)"
proof -
  have h1: "fault env_ok = None" by (simp add: env_ok_def)
  have h2: "\<forall>c\<in>set (carts db_cart). sessionId c \<noteq> ''s2''"
    by (simp add: db_cart_def cart_a_def)
  have h3: "\<forall>x\<in>set [(env_ok, PostCart ''s1'' [4, 5 :: nat]), (env_ok, DeleteCart ''s2'')].
              \<not> replaces ''s2'' (snd x)"
    by simp
  show ?thesis
    using h1 h2 h3
      get_cart_missing_session [OF h1, of db_cart "''s2''"
        "[(env_ok, PostCart ''s1'' [4, 5]), (env_ok, DeleteCart ''s2'')]" None]
    by (simp add: db_empty_def)
qed


section \<open>Order creation\<close>





















section \<open>Admin login\<close>

text \<open>
  C9 (as amended). The login answers 200 with the fixed token exactly when the submitted
  password equals, as a string, the value of \<open>ADMIN_PASSWORD\<close> if that is set and not empty,
  and the fallback \<open>equineadmin123\<close> if it is unset or empty; every other password is
  answered with 401.
\<close>

theorem admin_login_exact:
  "(post_admin_login env_pw password = (200, Token ''secure_admin_session_active'') \<or>
    post_admin_login env_pw password = (401, Failure ''Unauthorized'')) \<and>
   (post_admin_login env_pw password = (200, Token ''secure_admin_session_active'') \<longleftrightarrow>
      password = (case env_pw of
                    None \<Rightarrow> ''equineadmin123''
                  | Some s \<Rightarrow> if s = [] then ''equineadmin123'' else s))"
  by (simp add: post_admin_login_def validPassword_def falsy_def split: option.splits)

text \<open>
  C9 as stated fails when \<open>ADMIN_PASSWORD\<close> is set to the empty string: the password equal
  to that secret is refused, and the fallback password is accepted.
\<close>

theorem admin_login_empty_secret_counterexample:
  "post_admin_login (Some []) [] = ((401, Failure ''Unauthorized'') :: nat response) \<and>
   post_admin_login (Some []) ''equineadmin123''
     = ((200, Token ''secure_admin_session_active'') :: nat response)"
  by (simp add: post_admin_login_def validPassword_def falsy_def)




section \<open>What the operations leave unchanged\<close>

lemma handle_updates_frame:
  assumes "updates_only r"
    and "\<And>u d. f (attach u d) = f d" and "\<And>s d. f (d\<lparr>status := s\<rparr>) = f d"
  shows "map f (orders (fst (handle pw e r st))) = map f (orders st)"
proof (cases r)
  case (PutOrderStatus oid s)
  then show ?thesis
    using assms(3)
    by (simp add: put_order_status_def Let_def update_map_frame split: option.splits)
next
  case (PostUploadReceipt oid protocol host upl)
  then show ?thesis
    using assms(2)
    by (simp add: post_upload_receipt_def Let_def update_map_frame split: option.splits)
qed (use assms(1) in simp_all)

lemma run_updates_frame:
  assumes "\<And>u d. f (attach u d) = f d" and "\<And>s d. f (d\<lparr>status := s\<rparr>) = f d"
  shows "\<forall>x\<in>set reqs. updates_only (snd x) \<Longrightarrow>
         map f (orders (run pw reqs st)) = map f (orders st)"
proof (induction reqs arbitrary: st)
  case Nil
  then show ?case by simp
next
  case (Cons x reqs)
  have "map f (orders (fst (handle pw (fst x) (snd x) st))) = map f (orders st)"
    using Cons.prems assms by (intro handle_updates_frame) simp_all
  then show ?case using Cons.IH [of "fst (handle pw (fst x) (snd x) st)"] Cons.prems by simp
qed

lemma handle_extends:
  assumes "\<And>u d. f (attach u d) = f d" and "\<And>s d. f (d\<lparr>status := s\<rparr>) = f d"
  shows "\<exists>ys. map f (orders (fst (handle pw e r st))) = map f (orders st) @ ys"
proof (cases r)
  case (PostOrders b)
  then show ?thesis
    by (auto simp: post_orders_def Let_def save_def split: option.splits)
next
  case (PutOrderStatus oid s)
  then show ?thesis
    using assms(2)
    by (simp add: put_order_status_def Let_def update_map_frame split: option.splits)
next
  case (PostUploadReceipt oid protocol host upl)
  then show ?thesis
    using assms(1)
    by (simp add: post_upload_receipt_def Let_def update_map_frame split: option.splits)
qed (simp_all add: get_cart_def post_cart_def delete_cart_def get_admin_orders_def get_track_def
      split: option.splits)

lemma run_extends:
  assumes "\<And>u d. f (attach u d) = f d" and "\<And>s d. f (d\<lparr>status := s\<rparr>) = f d"
  shows "\<exists>ys. map f (orders (run pw reqs st)) = map f (orders st) @ ys"
proof (induction reqs arbitrary: st)
  case Nil
  then show ?case by simp
next
  case (Cons x reqs)
  obtain ys where ys: "map f (orders (fst (handle pw (fst x) (snd x) st))) = map f (orders st) @ ys"
    using handle_extends [of f pw "fst x" "snd x" st, OF assms] by blast
  obtain zs where "map f (orders (run pw reqs (fst (handle pw (fst x) (snd x) st))))
                     = map f (orders (fst (handle pw (fst x) (snd x) st))) @ zs"
    using Cons.IH [of "fst (handle pw (fst x) (snd x) st)"] by blast
  then show ?case using ys by simp
qed

lemma run_take:
  assumes "\<And>u d. f (attach u d) = f d" and "\<And>s d. f (d\<lparr>status := s\<rparr>) = f d"
  shows "take (length (orders st)) (map f (orders (run pw reqs st))) = map f (orders st)"
proof -
  obtain ys where "map f (orders (run pw reqs st)) = map f (orders st) @ ys"
    using run_extends [of f pw reqs st, OF assms] by blast
  then show ?thesis by simp
qed

lemma run_length: "length (orders st) \<le> length (orders (run pw reqs st))"
proof -
  obtain ys where "map orderId (orders (run pw reqs st)) = map orderId (orders st) @ ys"
    using run_extends [of orderId pw reqs st] by (auto simp: attach_def)
  then have "length (map orderId (orders (run pw reqs st))) = length (orders st) + length ys"
    by simp
  then show ?thesis by simp
qed

lemma update_one_place:
  "fst (findOneAndUpdate p u xs) = xs \<or>
   (\<exists>i<length xs. p (xs ! i) \<and> fst (findOneAndUpdate p u xs) = xs[i := u (xs ! i)])"
proof (induction xs)
  case Nil
  then show ?case by simp
next
  case (Cons x xs)
  show ?case
  proof (cases "p x")
    case True
    then have "p ((x # xs) ! 0) \<and>
        fst (findOneAndUpdate p u (x # xs)) = (x # xs)[0 := u ((x # xs) ! 0)]"
      by simp
    then show ?thesis by blast
  next
    case False
    from Cons.IH show ?thesis
    proof
      assume "fst (findOneAndUpdate p u xs) = xs"
      then show ?thesis using False by simp
    next
      assume "\<exists>i<length xs. p (xs ! i) \<and> fst (findOneAndUpdate p u xs) = xs[i := u (xs ! i)]"
      then obtain i where i: "i < length xs" "p (xs ! i)"
        "fst (findOneAndUpdate p u xs) = xs[i := u (xs ! i)]"
        by blast
      then have "Suc i < length (x # xs) \<and> p ((x # xs) ! Suc i) \<and>
          fst (findOneAndUpdate p u (x # xs)) = (x # xs)[Suc i := u ((x # xs) ! Suc i)]"
        using False by simp
      then show ?thesis by blast
    qed
  qed
qed

lemma update_other_place:
  "i < length xs \<Longrightarrow> \<not> p (xs ! i) \<Longrightarrow> fst (findOneAndUpdate p u xs) ! i = xs ! i"
proof (induction xs arbitrary: i)
  case Nil
  then show ?case by simp
next
  case (Cons x xs)
  then show ?case by (cases i) auto
qed

lemma handle_other_order:
  assumes "updates_only r" and "target r \<noteq> Some oid'"
    and "i < length (orders st)" and "orderId (orders st ! i) = oid'"
  shows "orders (fst (handle pw e r st)) ! i = orders st ! i"
proof (cases r)
  case (PutOrderStatus oid s)
  then have "oid \<noteq> oid'" using assms(2) by simp
  then show ?thesis
    using PutOrderStatus assms(3,4)
    by (simp add: put_order_status_def Let_def update_other_place split: option.splits)
next
  case (PostUploadReceipt oid protocol host upl)
  then have "oid \<noteq> oid'" using assms(2) by simp
  then show ?thesis
    using PostUploadReceipt assms(3,4)
    by (simp add: post_upload_receipt_def Let_def update_other_place split: option.splits)
qed (use assms(1) in simp_all)

lemma run_other_order:
  "\<forall>x\<in>set ups. updates_only (snd x) \<and> target (snd x) \<noteq> Some oid' \<Longrightarrow>
   i < length (orders st) \<Longrightarrow> orderId (orders st ! i) = oid' \<Longrightarrow>
   orders (run pw ups st) ! i = orders st ! i"
proof (induction ups arbitrary: st)
  case Nil
  then show ?case by simp
next
  case (Cons x ups)
  let ?st = "fst (handle pw (fst x) (snd x) st)"
  have u: "updates_only (snd x)" "target (snd x) \<noteq> Some oid'" using Cons.prems(1) by simp_all
  have same: "orders ?st ! i = orders st ! i"
    using u Cons.prems(2,3) by (rule handle_other_order)
  have "map orderId (orders ?st) = map orderId (orders st)"
    using u(1) by (intro handle_updates_frame) (simp_all add: attach_def)
  then have "length (orders ?st) = length (orders st)" by (rule map_eq_imp_length_eq)
  then have "i < length (orders ?st)" "orderId (orders ?st ! i) = oid'"
    using Cons.prems(2,3) same by simp_all
  then have "orders (run pw ups ?st) ! i = orders ?st ! i"
    using Cons.prems(1) by (intro Cons.IH) simp_all
  then show ?case using same by simp
qed

text \<open>
  C5. A status update changes at most one order, one with the given \<open>orderId\<close>, and of that
  order only \<open>status\<close>; a receipt upload changes at most one order, one with the given
  \<open>orderId\<close>, and of that order only \<open>receiptImg\<close> and \<open>status\<close>; neither touches the carts.
  Over any sequence of these two operations every order keeps its \<open>orderId\<close>, its
  \<open>createdAt\<close> and every other field they do not set, and an order that none of them
  names keeps all its fields. Over any sequence of requests of any kind no order is
  removed: the orders stored at the start are still there, in place, with the same
  \<open>orderId\<close> and \<open>createdAt\<close>.
\<close>

theorem orders_frame:
  fixes st :: "'i db" and ups reqs :: "(env \<times> 'i request) list"
  shows "(orders (fst (put_order_status e oid s st)) = orders st \<or>
          (\<exists>i<length (orders st). orderId (orders st ! i) = oid \<and>
             orders (fst (put_order_status e oid s st))
               = (orders st)[i := (orders st ! i)\<lparr>status := s\<rparr>])) \<and>
         carts (fst (put_order_status e oid s st)) = carts st \<and>
         (orders (fst (post_upload_receipt e oid pr h file st)) = orders st \<or>
          (\<exists>i<length (orders st). \<exists>fn. file = Some fn \<and> orderId (orders st ! i) = oid \<and>
             orders (fst (post_upload_receipt e oid pr h file st))
               = (orders st)[i := (orders st ! i)\<lparr>receiptImg := Some (fileUrl pr h fn),
                                                status := ''Pending Verification''\<rparr>])) \<and>
         carts (fst (post_upload_receipt e oid pr h file st)) = carts st \<and>
         ((\<forall>x\<in>set ups. updates_only (snd x)) \<longrightarrow>
            map orderId (orders (run pw ups st)) = map orderId (orders st) \<and>
            map createdAt (orders (run pw ups st)) = map createdAt (orders st) \<and>
            map (\<lambda>d. d\<lparr>receiptImg := None, status := []\<rparr>) (orders (run pw ups st))
              = map (\<lambda>d. d\<lparr>receiptImg := None, status := []\<rparr>) (orders st)) \<and>
         ((\<forall>x\<in>set ups. updates_only (snd x) \<and> target (snd x) \<noteq> Some oid') \<longrightarrow>
            (\<forall>i<length (orders st). orderId (orders st ! i) = oid' \<longrightarrow>
               orders (run pw ups st) ! i = orders st ! i)) \<and>
         length (orders st) \<le> length (orders (run pw reqs st)) \<and>
         take (length (orders st)) (map orderId (orders (run pw reqs st))) = map orderId (orders st) \<and>
         take (length (orders st)) (map createdAt (orders (run pw reqs st)))
           = map createdAt (orders st)"
proof -
  let ?p = "\<lambda>d::'i order. orderId d = oid"
  have a: "orders (fst (put_order_status e oid s st)) = orders st \<or>
          (\<exists>i<length (orders st). orderId (orders st ! i) = oid \<and>
             orders (fst (put_order_status e oid s st))
               = (orders st)[i := (orders st ! i)\<lparr>status := s\<rparr>])"
  proof (cases "fault e")
    case None
    then have "orders (fst (put_order_status e oid s st))
                 = fst (findOneAndUpdate ?p (\<lambda>d. d\<lparr>status := s\<rparr>) (orders st))"
      by (simp add: put_order_status_def Let_def)
    then show ?thesis
      using update_one_place [of ?p "\<lambda>d. d\<lparr>status := s\<rparr>" "orders st"] by simp
  next
    case (Some m)
    then show ?thesis by (simp add: put_order_status_def)
  qed
  have a': "carts (fst (put_order_status e oid s st)) = carts st"
    by (simp add: put_order_status_def Let_def split: option.splits)
  have b: "orders (fst (post_upload_receipt e oid pr h file st)) = orders st \<or>
          (\<exists>i<length (orders st). \<exists>fn. file = Some fn \<and> orderId (orders st ! i) = oid \<and>
             orders (fst (post_upload_receipt e oid pr h file st))
               = (orders st)[i := (orders st ! i)\<lparr>receiptImg := Some (fileUrl pr h fn),
                                                status := ''Pending Verification''\<rparr>])"
  proof (cases "file")
    case None
    then show ?thesis by (simp add: post_upload_receipt_def)
  next
    case (Some fn)
    show ?thesis
    proof (cases "fault e")
      case None
      then have "orders (fst (post_upload_receipt e oid pr h file st))
                   = fst (findOneAndUpdate ?p (attach (fileUrl pr h fn)) (orders st))"
        using Some by (simp add: post_upload_receipt_def Let_def)
      then show ?thesis
        using update_one_place [of ?p "attach (fileUrl pr h fn)" "orders st"] Some
        by (simp add: attach_def)
    next
      case (Some m)
      then show ?thesis using \<open>file = Some fn\<close> by (simp add: post_upload_receipt_def)
    qed
  qed
  have b': "carts (fst (post_upload_receipt e oid pr h file st)) = carts st"
    by (simp add: post_upload_receipt_def Let_def split: option.splits)
  have c1: "map orderId (orders (run pw ups st)) = map orderId (orders st)"
    if "\<forall>x\<in>set ups. updates_only (snd x)"
    using that by (intro run_updates_frame) (simp_all add: attach_def)
  have c2: "map createdAt (orders (run pw ups st)) = map createdAt (orders st)"
    if "\<forall>x\<in>set ups. updates_only (snd x)"
    using that by (intro run_updates_frame) (simp_all add: attach_def)
  have c3: "map (\<lambda>d. d\<lparr>receiptImg := None, status := []\<rparr>) (orders (run pw ups st))
              = map (\<lambda>d. d\<lparr>receiptImg := None, status := []\<rparr>) (orders st)"
    if "\<forall>x\<in>set ups. updates_only (snd x)"
    using that by (intro run_updates_frame) (simp_all add: attach_def)
  have c4: "\<forall>i<length (orders st). orderId (orders st ! i) = oid' \<longrightarrow>
               orders (run pw ups st) ! i = orders st ! i"
    if "\<forall>x\<in>set ups. updates_only (snd x) \<and> target (snd x) \<noteq> Some oid'"
    using that run_other_order [of ups oid' _ st pw] by blast
  have d1: "take (length (orders st)) (map orderId (orders (run pw reqs st))) = map orderId (orders st)"
    by (intro run_take) (simp_all add: attach_def)
  have d2: "take (length (orders st)) (map createdAt (orders (run pw reqs st)))
              = map createdAt (orders st)"
    by (intro run_take) (simp_all add: attach_def)
  show ?thesis
    using a a' b b' c1 c2 c3 c4 run_length [of st pw reqs] d1 d2 by blast
qed

theorem orders_frame_witness:
  "updates_only (PutOrderStatus ''EQ-1000-100'' ''Approved'' :: nat request) \<and>
   target (PutOrderStatus ''EQ-1000-100'' ''Approved'' :: nat request) = Some ''EQ-1000-100'' \<and>
   updates_only (PostUploadReceipt ''EQ-1000-100'' ''https'' ''shop.example''
                   (Some ''receipt-1.png'') :: nat request) \<and>
   target (PostUploadReceipt ''EQ-1000-100'' ''https'' ''shop.example''
                   (Some ''receipt-1.png'') :: nat request) = Some ''EQ-1000-100'' \<and>
   orders db_two = [order_a, order_b] \<and> status order_b = ''Delivered'' \<and>
   orders (fst (put_order_status env_ok ''EQ-1000-100'' ''Approved'' db_two))
     = [order_a\<lparr>status := ''Approved''\<rparr>, order_b] \<and>
   orders (run None
       [(env_ok, PutOrderStatus ''EQ-1000-100'' ''Approved''),
        (env_ok, PostUploadReceipt ''EQ-1000-100'' ''https'' ''shop.example'' (Some ''receipt-1.png''))]
       db_two) ! 1 = order_b \<and>
   map orderId (orders (run None
       [(env_ok, PutOrderStatus ''EQ-1000-100'' ''Approved''),
        (env_ok, PostUploadReceipt ''EQ-1000-100'' ''https'' ''shop.example'' (Some ''receipt-1.png''))]
       db_two)) = [''EQ-1000-100'', ''EQ-2000-200''] \<and>
   map createdAt (orders (run None
       [(env_ok, PutOrderStatus ''EQ-1000-100'' ''Approved''),
        (env_ok, PostUploadReceipt ''EQ-1000-100'' ''https'' ''shop.example'' (Some ''receipt-1.png''))]
       db_two)) = [1600000000000, 1610000000000] \<and>
   take 2 (map orderId (orders (run None
       [(env_ok, PostOrders (body_supplied ''order #7'')), (env_ok, DeleteCart ''s1''),
        (env_ok, PutOrderStatus ''EQ-1000-100'' ''Approved'')]
       db_two))) = [''EQ-1000-100'', ''EQ-2000-200'']"
proof -
  let ?ups = "[(env_ok, PutOrderStatus ''EQ-1000-100'' ''Approved''),
        (env_ok, PostUploadReceipt ''EQ-1000-100'' ''https'' ''shop.example''
                   (Some ''receipt-1.png''))] :: (env \<times> nat request) list"
  let ?reqs = "[(env_ok, PostOrders (body_supplied ''order #7'')), (env_ok, DeleteCart ''s1''),
        (env_ok, PutOrderStatus ''EQ-1000-100'' ''Approved'')] :: (env \<times> nat request) list"
  have h: "\<forall>x\<in>set ?ups. updates_only (snd x)"
    "\<forall>x\<in>set ?ups. updates_only (snd x) \<and> target (snd x) \<noteq> Some ''EQ-2000-200''"
    by simp_all
  have o: "orders db_two = [order_a, order_b]" "status order_b = ''Delivered''"
    "map orderId (orders db_two) = [''EQ-1000-100'', ''EQ-2000-200'']"
    "map createdAt (orders db_two) = [1600000000000, 1610000000000]"
    "length (orders db_two) = 2" "orderId (orders db_two ! 1) = ''EQ-2000-200''"
    "orders db_two ! 1 = order_b"
    by (simp_all add: db_two_def order_a_def order_b_def)
  have one: "orders (fst (put_order_status env_ok ''EQ-1000-100'' ''Approved'' db_two))
     = [order_a\<lparr>status := ''Approved''\<rparr>, order_b]"
    by (simp add: put_order_status_def env_ok_def db_two_def order_a_def)
  note t = orders_frame [of env_ok "''EQ-1000-100''" "''Approved''" db_two "''https''"
        "''shop.example''" "Some ''receipt-1.png''" ?ups None "''EQ-2000-200''" ?reqs]
  have t1: "map orderId (orders (run None ?ups db_two)) = map orderId (orders db_two)"
    and t2: "map createdAt (orders (run None ?ups db_two)) = map createdAt (orders db_two)"
    and t3: "take (length (orders db_two)) (map orderId (orders (run None ?reqs db_two)))
       = map orderId (orders db_two)"
    using t h(1) by blast+
  have "\<forall>i<length (orders db_two). orderId (orders db_two ! i) = ''EQ-2000-200'' \<longrightarrow>
          orders (run None ?ups db_two) ! i = orders db_two ! i"
    using t h(2) by blast
  then have t4: "orders (run None ?ups db_two) ! 1 = orders db_two ! 1"
    using o(5,6) by simp
  have t1': "map orderId (orders (run None ?ups db_two)) = [''EQ-1000-100'', ''EQ-2000-200'']"
    using t1 by (simp only: o(3))
  have t2': "map createdAt (orders (run None ?ups db_two)) = [1600000000000, 1610000000000]"
    using t2 by (simp only: o(4))
  have t3': "take 2 (map orderId (orders (run None ?reqs db_two)))
               = [''EQ-1000-100'', ''EQ-2000-200'']"
    using t3 by (simp only: o(3,5))
  have t4': "orders (run None ?ups db_two) ! 1 = order_b"
    using t4 by (simp only: o(7))
  have u: "updates_only (PutOrderStatus ''EQ-1000-100'' ''Approved'' :: nat request)"
    "target (PutOrderStatus ''EQ-1000-100'' ''Approved'' :: nat request) = Some ''EQ-1000-100''"
    "updates_only (PostUploadReceipt ''EQ-1000-100'' ''https'' ''shop.example''
                   (Some ''receipt-1.png'') :: nat request)"
    "target (PostUploadReceipt ''EQ-1000-100'' ''https'' ''shop.example''
                   (Some ''receipt-1.png'') :: nat request) = Some ''EQ-1000-100''"
    by simp_all
  show ?thesis
    using u o(1,2) one t1' t2' t3' t4' by blast
qed

end
